theory Spec2Isabelle
  imports Main
begin

section \<open>JavaScript values\<close>

text \<open>
  The frontend handles values of type \<open>any\<close>: whatever \<open>JSON.parse\<close> returned, or the
  body of an HTTP response. They are modelled as a datatype of JSON values extended with
  \<open>undefined\<close>. Strings are sequences of code units below 256; an object is the list of
  its own properties. Of a number only the difference between zero and non-zero is
  ever observed by the code below, so numbers are integers.
\<close>

datatype json =
    JUndefined
  | JNull
  | JBool bool
  | JNum int
  | JStr string
  | JArr "json list"
  | JObj "(string \<times> json) list"

datatype js_error = TypeError

text \<open>ToBoolean: \<open>undefined\<close>, \<open>null\<close>, \<open>false\<close>, \<open>0\<close> and \<open>""\<close> are falsy.\<close>

fun truthy :: "json \<Rightarrow> bool" where
  "truthy JUndefined = False"
| "truthy JNull = False"
| "truthy (JBool b) = b"
| "truthy (JNum n) = (n \<noteq> 0)"
| "truthy (JStr s) = (s \<noteq> [])"
| "truthy (JArr xs) = True"
| "truthy (JObj kvs) = True"

fun typeof :: "json \<Rightarrow> string" where
  "typeof JUndefined = ''undefined''"
| "typeof JNull = ''object''"
| "typeof (JBool b) = ''boolean''"
| "typeof (JNum n) = ''number''"
| "typeof (JStr s) = ''string''"
| "typeof (JArr xs) = ''object''"
| "typeof (JObj kvs) = ''object''"

text \<open>
  Property read \<open>v.k\<close>, for the property names the code uses (\<open>openapi\<close>, \<open>info\<close>,
  \<open>title\<close>, \<open>version\<close>, \<open>paths\<close>, \<open>detail\<close>, \<open>message\<close>): none of them is an index,
  \<open>length\<close> or a prototype member, so on a primitive or an array the read is
  \<open>undefined\<close>. Reading a property of \<open>undefined\<close> or \<open>null\<close> throws.
\<close>

fun js_get :: "json \<Rightarrow> string \<Rightarrow> js_error + json" where
  "js_get JUndefined k = Inl TypeError"
| "js_get JNull k = Inl TypeError"
| "js_get (JObj kvs) k = (case map_of kvs k of Some v \<Rightarrow> Inr v | None \<Rightarrow> Inr JUndefined)"
| "js_get v k = Inr JUndefined"

text \<open>Optional chaining \<open>v?.k\<close>: \<open>undefined\<close> where \<open>v\<close> is \<open>undefined\<close> or \<open>null\<close>.\<close>

fun js_get_opt :: "json \<Rightarrow> string \<Rightarrow> json" where
  "js_get_opt (JObj kvs) k = (case map_of kvs k of Some v \<Rightarrow> v | None \<Rightarrow> JUndefined)"
| "js_get_opt v k = JUndefined"

text \<open>
  \<open>a && b\<close> yields \<open>a\<close> when \<open>a\<close> is falsy and \<open>b\<close> otherwise, and \<open>b\<close> is not evaluated
  in the first case, so an exception of \<open>b\<close> is then not raised.
\<close>

definition js_and :: "js_error + json \<Rightarrow> js_error + json \<Rightarrow> js_error + json" where
  "js_and a b = (case a of Inl e \<Rightarrow> Inl e | Inr v \<Rightarrow> if truthy v then b else Inr v)"

definition js_or :: "json \<Rightarrow> json \<Rightarrow> json" where
  "js_or a b = (if truthy a then a else b)"

definition js_bind :: "js_error + json \<Rightarrow> (json \<Rightarrow> js_error + json) \<Rightarrow> js_error + json" where
  "js_bind a f = (case a of Inl e \<Rightarrow> Inl e | Inr v \<Rightarrow> f v)"

section \<open>ApiService.validateOpenAPISpec\<close>

text \<open>
  The chain of \<open>&&\<close> is left associative and returns the first falsy operand, or the
  last operand. The declared result type is \<open>boolean\<close>, the value is whatever the chain
  yields; the callers test it with \<open>if\<close>.
\<close>

definition validateOpenAPISpec :: "json \<Rightarrow> js_error + json" where
  "validateOpenAPISpec spec =
     js_and (js_and (js_and (js_and (js_and (js_and (js_and
       (Inr spec)
       (Inr (JBool (typeof spec = ''object''))))
       (js_get spec ''openapi''))
       (js_get spec ''info''))
       (js_bind (js_get spec ''info'') (\<lambda>i. js_get i ''title'')))
       (js_bind (js_get spec ''info'') (\<lambda>i. js_get i ''version'')))
       (js_get spec ''paths''))
       (js_bind (js_get spec ''paths'') (\<lambda>p. Inr (JBool (typeof p = ''object''))))"

text \<open>What \<open>if (apiService.validateOpenAPISpec(spec))\<close> tests.\<close>

definition spec_accepted :: "json \<Rightarrow> bool" where
  "spec_accepted spec = (case validateOpenAPISpec spec of Inl e \<Rightarrow> False | Inr v \<Rightarrow> truthy v)"

text \<open>
  The minimum shape in the words of the specification: a title, a version and at least
  one path.
\<close>

definition has_title :: "json \<Rightarrow> bool" where
  "has_title spec = truthy (js_get_opt (js_get_opt spec ''info'') ''title'')"

definition has_version :: "json \<Rightarrow> bool" where
  "has_version spec = truthy (js_get_opt (js_get_opt spec ''info'') ''version'')"

definition has_some_path :: "json \<Rightarrow> bool" where
  "has_some_path spec = (case js_get_opt spec ''paths'' of JObj ps \<Rightarrow> ps \<noteq> [] | _ \<Rightarrow> False)"

definition spec_minimum_shape :: "json \<Rightarrow> bool" where
  "spec_minimum_shape spec = (has_title spec \<and> has_version spec \<and> has_some_path spec)"

definition is_container :: "json \<Rightarrow> bool" where
  "is_container v = (case v of JObj kvs \<Rightarrow> True | JArr xs \<Rightarrow> True | _ \<Rightarrow> False)"

section \<open>The authentication facade (services/keycloak.ts)\<close>

text \<open>
  The module keeps its state in the variables \<open>mockAuthenticated\<close> and \<open>mockToken\<close>
  (\<open>mockUser\<close> is never assigned and is left out). Every exported operation is a
  function of that state.
\<close>

record auth =
  mockAuthenticated :: bool
  mockToken :: string

definition initial_auth :: auth where
  "initial_auth = \<lparr>mockAuthenticated = True, mockToken = ''mock-jwt-token''\<rparr>"

definition login :: "auth \<Rightarrow> auth" where
  "login a = a\<lparr>mockAuthenticated := True\<rparr>"

definition logout :: "auth \<Rightarrow> auth" where
  "logout a = a\<lparr>mockAuthenticated := False, mockToken := ''''\<rparr>"

text \<open>\<open>None\<close> is the result \<open>undefined\<close>.\<close>

definition getToken :: "auth \<Rightarrow> string option" where
  "getToken a = (if mockAuthenticated a then Some (mockToken a) else None)"

definition isAuthenticated :: "auth \<Rightarrow> bool" where
  "isAuthenticated a = mockAuthenticated a"

definition initKeycloak :: "auth \<Rightarrow> bool" where
  "initKeycloak a = mockAuthenticated a"

definition updateToken :: "auth \<Rightarrow> bool" where
  "updateToken a = True"

datatype auth_op = Login | Logout | UpdateToken | InitKeycloak

fun auth_step :: "auth \<Rightarrow> auth_op \<Rightarrow> auth" where
  "auth_step a Login = login a"
| "auth_step a Logout = logout a"
| "auth_step a UpdateToken = a"
| "auth_step a InitKeycloak = a"

definition auth_run :: "auth_op list \<Rightarrow> auth" where
  "auth_run ops = foldl auth_step initial_auth ops"

section \<open>ApiService: the HTTP client and its interceptors\<close>

text \<open>
  A request configuration, with the members the code reads or writes: the \<open>Authorization\<close>
  header and the \<open>_retry\<close> mark (\<open>retry\<close> here).
\<close>

record request_config =
  url :: string
  http_method :: string
  req_data :: json
  authorization :: "string option"
  retry :: bool

record 'a http_response =
  status :: nat
  data :: 'a

text \<open>
  The error object the HTTP library rejects with: \<open>response\<close> is set when the server
  answered with a status outside 2xx, \<open>request\<close> when the request was made.
\<close>

record axios_error =
  error_message :: string
  error_stack :: string
  error_config :: request_config
  error_request :: bool
  error_response :: "json http_response option"

record ApiError =
  api_message :: json
  api_status :: "nat option"
  api_details :: "json option"

definition handleError :: "axios_error \<Rightarrow> ApiError" where
  "handleError error =
     (case error_response error of
        Some r \<Rightarrow>
          \<lparr>api_message =
             js_or (js_or (js_get_opt (data r) ''detail'') (js_get_opt (data r) ''message''))
               (JStr ''Server error''),
           api_status = Some (status r),
           api_details = Some (data r)\<rparr>
      | None \<Rightarrow>
          if error_request error then
            \<lparr>api_message = JStr ''Network error - please check your connection'',
             api_status = Some 0,
             api_details = None\<rparr>
          else
            \<lparr>api_message =
               js_or (JStr (error_message error)) (JStr ''An unexpected error occurred''),
             api_status = None,
             api_details = None\<rparr>)"

text \<open>
  What the transport does with a request is a parameter: the answer to the \<open>n\<close>-th
  request handed to it, either a response that the library resolves with (a 2xx status)
  or the data of the error it rejects with. The library puts the request's own
  configuration into the error.
\<close>

record fault =
  fault_message :: string
  fault_stack :: string
  fault_request :: bool
  fault_response :: "json http_response option"

datatype 'a wire = Resolved "'a http_response" | Failed fault

type_synonym 'a network = "nat \<Rightarrow> request_config \<Rightarrow> 'a wire"

definition mk_error :: "fault \<Rightarrow> request_config \<Rightarrow> axios_error" where
  "mk_error f config =
     \<lparr>error_message = fault_message f, error_stack = fault_stack f, error_config = config,
      error_request = fault_request f, error_response = fault_response f\<rparr>"

text \<open>
  The state outside a component: the authentication module, the requests handed to the
  transport so far, and the number of clock readings taken so far.
\<close>

record world =
  auth_state :: auth
  issued :: "request_config list"
  ticks :: nat

definition request_interceptor :: "auth \<Rightarrow> request_config \<Rightarrow> request_config" where
  "request_interceptor a config =
     (case getToken a of
        Some token \<Rightarrow>
          if token \<noteq> [] then config\<lparr>authorization := Some (''Bearer '' @ token)\<rparr> else config
      | None \<Rightarrow> config)"

text \<open>A rejected call hands its caller a structured error or the library's error object.\<close>

datatype rejection = Structured ApiError | Raw axios_error

datatype verdict = Retry request_config | Rejects rejection

definition has_status :: "axios_error \<Rightarrow> nat \<Rightarrow> bool" where
  "has_status error n = (case error_response error of Some r \<Rightarrow> status r = n | None \<Rightarrow> False)"

text \<open>
  The rejection handler of the response interceptor. \<open>originalRequest\<close> is the object
  \<open>error.config\<close>, so marking it marks the configuration inside the error as well.
\<close>

definition response_rejected :: "world \<Rightarrow> axios_error \<Rightarrow> world \<times> verdict" where
  "response_rejected w error =
     (let originalRequest = error_config error in
      if has_status error 401 \<and> \<not> retry originalRequest then
        let originalRequest = originalRequest\<lparr>retry := True\<rparr>;
            error = error\<lparr>error_config := originalRequest\<rparr>;
            refreshed = updateToken (auth_state w);
            token = (if refreshed then getToken (auth_state w) else None)
        in (case token of
              Some t \<Rightarrow>
                if t \<noteq> [] then
                  (w, Retry (originalRequest\<lparr>authorization := Some (''Bearer '' @ t)\<rparr>))
                else (w\<lparr>auth_state := login (auth_state w)\<rparr>, Rejects (Raw error))
            | None \<Rightarrow> (w\<lparr>auth_state := login (auth_state w)\<rparr>, Rejects (Raw error)))
      else (w, Rejects (Structured (handleError error))))"

text \<open>
  One call of the client: the request interceptor, the transport, and on failure the
  rejection handler, which may hand the marked request to the client again.
\<close>

function client :: "'a network \<Rightarrow> world \<Rightarrow> request_config \<Rightarrow>
    world \<times> (rejection + 'a http_response)" where
  "client net w config =
     (let config1 = request_interceptor (auth_state w) config;
          w1 = w\<lparr>issued := issued w @ [config1]\<rparr>
      in case net (length (issued w)) config1 of
           Resolved r \<Rightarrow> (w1, Inr r)
         | Failed f \<Rightarrow>
             (case response_rejected w1 (mk_error f config1) of
                (w2, Retry config2) \<Rightarrow> client net w2 config2
              | (w2, Rejects rej) \<Rightarrow> (w2, Inl rej)))"
  by pat_completeness auto

text \<open>The client calls itself only with a marked request, from an unmarked one.\<close>

termination client
  apply (relation "measure (\<lambda>(net, w, config). if retry config then 0 else 1)")
   apply simp
  apply (auto simp: response_rejected_def request_interceptor_def mk_error_def Let_def
      has_status_def split: if_splits option.splits)
  done

declare client.simps [simp del]

definition post :: "string \<Rightarrow> json \<Rightarrow> request_config" where
  "post path payload =
     \<lparr>url = path, http_method = ''post'', req_data = payload, authorization = None,
      retry = False\<rparr>"

record ChatMessage =
  message :: string
  session_id :: string

record ChatResponse =
  response :: string
  tools_used :: "string list"
  response_session_id :: string

definition chat_payload :: "ChatMessage \<Rightarrow> json" where
  "chat_payload m = JObj [(''message'', JStr (message m)), (''session_id'', JStr (session_id m))]"

definition sendChatMessage :: "ChatResponse network \<Rightarrow> world \<Rightarrow> ChatMessage \<Rightarrow>
    world \<times> (rejection + ChatResponse)" where
  "sendChatMessage net w m =
     (case client net w (post ''/chat'' (chat_payload m)) of
        (w', Inr r) \<Rightarrow> (w', Inr (data r))
      | (w', Inl e) \<Rightarrow> (w', Inl e))"

record ServiceConfig =
  config_name :: string
  config_base_url :: string
  config_openapi_spec :: json

definition service_payload :: "ServiceConfig \<Rightarrow> json" where
  "service_payload c =
     JObj [(''name'', JStr (config_name c)), (''base_url'', JStr (config_base_url c)),
           (''openapi_spec'', config_openapi_spec c)]"

definition registerService :: "json network \<Rightarrow> world \<Rightarrow> ServiceConfig \<Rightarrow>
    world \<times> (rejection + json)" where
  "registerService net w c =
     (case client net w (post ''/register-service'' (service_payload c)) of
        (w', Inr r) \<Rightarrow> (w', Inr (data r))
      | (w', Inl e) \<Rightarrow> (w', Inl e))"

section \<open>Strings and the clock\<close>

text \<open>
  \<open>String.prototype.trim\<close> removes white space and line terminators from both ends;
  among the code units below 256 these are TAB, LF, VT, FF, CR, SP and NBSP.
\<close>

definition is_space :: "char \<Rightarrow> bool" where
  "is_space c = (c \<in> set [CHR 0x09, CHR 0x0A, CHR 0x0B, CHR 0x0C, CHR 0x0D, CHR 0x20, CHR 0xA0])"

definition trim :: "string \<Rightarrow> string" where
  "trim s = rev (dropWhile is_space (rev (dropWhile is_space s)))"

text \<open>\<open>Number.prototype.toString\<close> on a non-negative integer: its decimal digits.\<close>

definition digit :: "nat \<Rightarrow> char" where
  "digit d = ''0123456789'' ! d"

function toString :: "nat \<Rightarrow> string" where
  "toString n = (if n < 10 then [digit n] else toString (n div 10) @ [digit (n mod 10)])"
  by pat_completeness auto

termination toString
  by (relation "measure (\<lambda>n. n)") auto

declare toString.simps [simp del]

text \<open>
  \<open>Date.now()\<close> and \<open>new Date()\<close> read the clock; \<open>clock k\<close> is the value of the \<open>k\<close>-th
  reading, in milliseconds.
\<close>

type_synonym clock = "nat \<Rightarrow> nat"

definition now :: "clock \<Rightarrow> world \<Rightarrow> world \<times> nat" where
  "now clock w = (w\<lparr>ticks := Suc (ticks w)\<rparr>, clock (ticks w))"

section \<open>The chat hook (useChat)\<close>

datatype sender = User | Assistant

record chat_entry =
  entry_id :: string
  content :: string
  sender :: sender
  timestamp :: nat
  entry_tools_used :: "string list option"

record chat_hook =
  messages :: "chat_entry list"
  isLoading :: bool

definition initial_hook :: chat_hook where
  "initial_hook = \<lparr>messages = [], isLoading = False\<rparr>"

text \<open>
  \<open>error instanceof Error ? error.message : 'Failed to send message'\<close>: the library's
  error object is an \<open>Error\<close>, the structured error is a plain object.
\<close>

fun failure_text :: "rejection \<Rightarrow> string" where
  "failure_text (Raw e) = error_message e"
| "failure_text (Structured e) = ''Failed to send message''"

definition sendMessage :: "clock \<Rightarrow> ChatResponse network \<Rightarrow> string \<Rightarrow>
    world \<times> chat_hook \<Rightarrow> world \<times> chat_hook" where
  "sendMessage clock net msg s =
     (case s of (w, h) \<Rightarrow>
        if trim msg = [] then (w, h)
        else
          let (w, t_id) = now clock w;
              (w, t_stamp) = now clock w;
              userMessage = \<lparr>entry_id = toString t_id, content = msg, sender = User,
                timestamp = t_stamp, entry_tools_used = None\<rparr>;
              h = h\<lparr>messages := messages h @ [userMessage]\<rparr>;
              h = h\<lparr>isLoading := True\<rparr>;
              (w, t_session) = now clock w;
              (w, outcome) = sendChatMessage net w
                \<lparr>message = msg, session_id = ''session_'' @ toString t_session\<rparr>
          in case outcome of
               Inr r \<Rightarrow>
                 let (w, t_id') = now clock w;
                     (w, t_stamp') = now clock w;
                     assistantMessage = \<lparr>entry_id = toString (t_id' + 1),
                       content = response r, sender = Assistant, timestamp = t_stamp',
                       entry_tools_used = Some (tools_used r)\<rparr>;
                     h = h\<lparr>messages := messages h @ [assistantMessage]\<rparr>
                 in (w, h\<lparr>isLoading := False\<rparr>)
             | Inl error \<Rightarrow>
                 let (w, t_id') = now clock w;
                     (w, t_stamp') = now clock w;
                     errorMessage = \<lparr>entry_id = toString (t_id' + 1),
                       content = ''Error: '' @ failure_text error, sender = Assistant,
                       timestamp = t_stamp', entry_tools_used = None\<rparr>;
                     h = h\<lparr>messages := messages h @ [errorMessage]\<rparr>
                 in (w, h\<lparr>isLoading := False\<rparr>))"

definition clearMessages :: "chat_hook \<Rightarrow> chat_hook" where
  "clearMessages h = h\<lparr>messages := []\<rparr>"

section \<open>The registration form (ServiceRegistrationForm)\<close>

datatype upload_method = File | Text

text \<open>\<open>openapi_spec\<close> is \<open>null\<close> (\<open>None\<close>) or a parsed document.\<close>

record ServiceFormData =
  name :: string
  base_url :: string
  openapi_spec :: "json option"
  upload_method :: upload_method
  openapi_text :: string

text \<open>
  The component's state: the form data, the error texts by field, the submitting flag,
  and the number of calls of \<open>onSuccess\<close>.
\<close>

record registration_form =
  formData :: ServiceFormData
  errors :: "(string \<times> string) list"
  isSubmitting :: bool
  succeeded :: nat

definition initial_form :: registration_form where
  "initial_form =
     \<lparr>formData = \<lparr>name = [], base_url = [], openapi_spec = None, upload_method = File,
        openapi_text = []\<rparr>,
      errors = [], isSubmitting = False, succeeded = 0\<rparr>"

text \<open>\<open>{...prev, k: v}\<close> on the error record.\<close>

fun put :: "string \<Rightarrow> string \<Rightarrow> (string \<times> string) list \<Rightarrow> (string \<times> string) list" where
  "put k v [] = [(k, v)]"
| "put k v ((k', v') # rest) = (if k' = k then (k, v) # rest else (k', v') # put k v rest)"

definition spec_present :: "json option \<Rightarrow> bool" where
  "spec_present s = (case s of None \<Rightarrow> False | Some v \<Rightarrow> truthy v)"

text \<open>
  \<open>new URL(s)\<close> belongs to the browser; whether it throws on \<open>s\<close> is the parameter
  \<open>url_parses\<close>. \<open>validateForm\<close> stores the new error record and tells whether it is empty.
\<close>

definition validateForm :: "(string \<Rightarrow> bool) \<Rightarrow> registration_form \<Rightarrow> registration_form \<times> bool" where
  "validateForm url_parses f =
     (let fd = formData f;
          newErrors = [];
          newErrors = (if trim (name fd) = [] then put ''name'' ''Service name is required'' newErrors
                       else newErrors);
          newErrors = (if trim (base_url fd) = [] then put ''base_url'' ''Base URL is required'' newErrors
                       else if url_parses (base_url fd) then newErrors
                       else put ''base_url'' ''Please enter a valid URL'' newErrors);
          newErrors = (if \<not> spec_present (openapi_spec fd) then
                         (if upload_method fd = File
                          then put ''openapi_spec'' ''Please upload an OpenAPI specification file'' newErrors
                          else put ''openapi_text'' ''Please provide OpenAPI specification text'' newErrors)
                       else newErrors)
      in (f\<lparr>errors := newErrors\<rparr>, newErrors = []))"

text \<open>
  \<open>JSON.parse\<close> is the parameter \<open>json_parse\<close>, \<open>None\<close> where it throws. A file is its text,
  or \<open>None\<close> when reading it fails. An exception of the validator would be caught by the
  handler's \<open>catch\<close>, which reports it like a failed parse.
\<close>

definition handleFileSelect :: "(string \<Rightarrow> json option) \<Rightarrow> string option \<Rightarrow>
    registration_form \<Rightarrow> registration_form" where
  "handleFileSelect json_parse file f =
     (case file of
        None \<Rightarrow> f\<lparr>errors := put ''openapi_spec'' ''Failed to read file'' (errors f)\<rparr>
      | Some text \<Rightarrow>
          (case json_parse text of
             None \<Rightarrow> f\<lparr>errors := put ''openapi_spec'' ''Invalid JSON file'' (errors f)\<rparr>
           | Some spec \<Rightarrow>
               (case validateOpenAPISpec spec of
                  Inl e \<Rightarrow> f\<lparr>errors := put ''openapi_spec'' ''TypeError'' (errors f)\<rparr>
                | Inr v \<Rightarrow>
                    if truthy v then
                      f\<lparr>formData := (formData f)\<lparr>openapi_spec := Some spec\<rparr>,
                        errors := put ''openapi_spec'' [] (errors f)\<rparr>
                    else
                      f\<lparr>errors := put ''openapi_spec'' ''Invalid OpenAPI specification'' (errors f)\<rparr>)))"

definition handleTextChange :: "(string \<Rightarrow> json option) \<Rightarrow> string \<Rightarrow>
    registration_form \<Rightarrow> registration_form" where
  "handleTextChange json_parse text f =
     (let f = f\<lparr>formData := (formData f)\<lparr>openapi_text := text\<rparr>\<rparr> in
      if trim text \<noteq> [] then
        (case json_parse text of
           None \<Rightarrow> f\<lparr>errors := put ''openapi_text'' ''Invalid JSON format'' (errors f)\<rparr>
         | Some spec \<Rightarrow>
             (case validateOpenAPISpec spec of
                Inl e \<Rightarrow> f\<lparr>errors := put ''openapi_text'' ''Invalid JSON format'' (errors f)\<rparr>
              | Inr v \<Rightarrow>
                  if truthy v then
                    f\<lparr>formData := (formData f)\<lparr>openapi_spec := Some spec\<rparr>,
                      errors := put ''openapi_text'' [] (errors f)\<rparr>
                  else
                    f\<lparr>errors := put ''openapi_text'' ''Invalid OpenAPI specification'' (errors f)\<rparr>))
      else f)"

definition handleMethodChange :: "upload_method \<Rightarrow> registration_form \<Rightarrow> registration_form" where
  "handleMethodChange m f =
     f\<lparr>formData := (formData f)\<lparr>upload_method := m, openapi_spec := None, openapi_text := []\<rparr>\<rparr>"

text \<open>The non-null assertion \<open>formData.openapi_spec!\<close> does nothing at run time.\<close>

definition form_config :: "ServiceFormData \<Rightarrow> ServiceConfig" where
  "form_config fd =
     \<lparr>config_name = trim (name fd), config_base_url = trim (base_url fd),
      config_openapi_spec = (case openapi_spec fd of Some s \<Rightarrow> s | None \<Rightarrow> JNull)\<rparr>"

fun submit_failure_text :: "rejection \<Rightarrow> string" where
  "submit_failure_text (Raw e) = error_message e"
| "submit_failure_text (Structured e) = ''Failed to register service''"

definition handleSubmit :: "(string \<Rightarrow> bool) \<Rightarrow> json network \<Rightarrow>
    world \<times> registration_form \<Rightarrow> world \<times> registration_form" where
  "handleSubmit url_parses net s =
     (case s of (w, f) \<Rightarrow>
        (case validateForm url_parses f of
           (f, False) \<Rightarrow> (w, f)
         | (f, True) \<Rightarrow>
             let f = f\<lparr>isSubmitting := True\<rparr>;
                 config = form_config (formData f)
             in (case registerService net w config of
                   (w, Inr reply) \<Rightarrow>
                     let f = (if truthy reply then f\<lparr>succeeded := Suc (succeeded f)\<rparr> else f)
                     in (w, f\<lparr>isSubmitting := False\<rparr>)
                 | (w, Inl error) \<Rightarrow>
                     let f = f\<lparr>errors := put ''submit'' (submit_failure_text error) (errors f)\<rparr>
                     in (w, f\<lparr>isSubmitting := False\<rparr>))))"

datatype form_event =
    NameChange string
  | BaseUrlChange string
  | MethodChange upload_method
  | FileSelect "string option"
  | TextChange string
  | Submit

fun form_step :: "(string \<Rightarrow> bool) \<Rightarrow> (string \<Rightarrow> json option) \<Rightarrow> json network \<Rightarrow>
    world \<times> registration_form \<Rightarrow> form_event \<Rightarrow> world \<times> registration_form" where
  "form_step up jp net (w, f) (NameChange v) = (w, f\<lparr>formData := (formData f)\<lparr>name := v\<rparr>\<rparr>)"
| "form_step up jp net (w, f) (BaseUrlChange v) = (w, f\<lparr>formData := (formData f)\<lparr>base_url := v\<rparr>\<rparr>)"
| "form_step up jp net (w, f) (MethodChange m) = (w, handleMethodChange m f)"
| "form_step up jp net (w, f) (FileSelect file) = (w, handleFileSelect jp file f)"
| "form_step up jp net (w, f) (TextChange text) = (w, handleTextChange jp text f)"
| "form_step up jp net (w, f) Submit = handleSubmit up net (w, f)"

definition form_run :: "(string \<Rightarrow> bool) \<Rightarrow> (string \<Rightarrow> json option) \<Rightarrow> json network \<Rightarrow>
    world \<Rightarrow> form_event list \<Rightarrow> world \<times> registration_form" where
  "form_run up jp net w events = foldl (form_step up jp net) (w, initial_form) events"

text \<open>What an event offers as a specification, if it offers one that parses.\<close>

fun offered_spec :: "(string \<Rightarrow> json option) \<Rightarrow> form_event \<Rightarrow> json option" where
  "offered_spec jp (FileSelect (Some text)) = jp text"
| "offered_spec jp (TextChange text) = (if trim text \<noteq> [] then jp text else None)"
| "offered_spec jp e = None"

definition offers_malformed :: "(string \<Rightarrow> json option) \<Rightarrow> form_event \<Rightarrow> bool" where
  "offers_malformed jp e = (case offered_spec jp e of None \<Rightarrow> True | Some s \<Rightarrow> \<not> spec_accepted s)"

text \<open>A registration request as the gateway receives it.\<close>

definition registration_of :: "string \<Rightarrow> string \<Rightarrow> json \<Rightarrow> request_config \<Rightarrow> bool" where
  "registration_of n b s c =
     (url c = ''/register-service'' \<and> http_method c = ''post'' \<and>
      req_data c = JObj [(''name'', JStr n), (''base_url'', JStr b), (''openapi_spec'', s)])"

section \<open>The Orchestration Loop\<close>

text \<open>
  Modelled from the spec: the Orchestration Loop. The agent of the backend is not among
  the sources; only its configuration table is (\<open>AGENT_MAX_ITERATIONS\<close>, default 15).
  The model follows the specification's state machine
  Start, Think, (Act, Observe)*, Finish, with Finish(forced) once the iteration cap is
  reached. The language model is a function of the scratchpad that returns a final
  answer or proposed tool calls, or is unavailable, which is fatal to the turn.
\<close>

datatype phase = Start | Think | Act | Observe | Finish | FinishForced

record tool_call =
  call_tool :: string
  call_arguments :: json

record ToolInvocationRecord =
  toolName :: string
  arguments :: json
  invocation_result :: "string + json"

datatype decision = FinalAnswer string | ToolCalls "tool_call list" | ModelUnavailable

datatype ending = Answered string | Forced | UpstreamModelUnavailable

record agent_config =
  max_iterations :: nat

text \<open>
  Modelled from the spec: the configured iteration cap and its default, 15, which is
  also the default of \<open>AGENT_MAX_ITERATIONS\<close> in the configuration table.
\<close>

definition default_agent_config :: agent_config where
  "default_agent_config = \<lparr>max_iterations = 15\<rparr>"

record turn_run =
  ending :: ending
  scratchpad :: "ToolInvocationRecord list"
  trace :: "phase list"

definition invoke_tool :: "(tool_call \<Rightarrow> string + json) \<Rightarrow> tool_call \<Rightarrow> ToolInvocationRecord" where
  "invoke_tool invoke c =
     \<lparr>toolName = call_tool c, arguments = call_arguments c, invocation_result = invoke c\<rparr>"

text \<open>
  Modelled from the spec: the loop itself, which is missing from the sources. \<open>n\<close> counts
  the iterations done. With the cap reached the turn goes directly to Finish(forced);
  otherwise it Thinks, and either finishes with the model's answer, fails with the
  model, or Acts on every proposed call, Observes the results on the scratchpad and
  starts the next iteration. A tool error is an observation like any other.
\<close>

function orchestrate :: "nat \<Rightarrow> (ToolInvocationRecord list \<Rightarrow> decision) \<Rightarrow>
    (tool_call \<Rightarrow> string + json) \<Rightarrow> nat \<Rightarrow> ToolInvocationRecord list \<Rightarrow> phase list \<Rightarrow> turn_run" where
  "orchestrate cap think invoke n pad tr =
     (if cap \<le> n then \<lparr>ending = Forced, scratchpad = pad, trace = tr @ [FinishForced]\<rparr>
      else
        (case think pad of
           FinalAnswer a \<Rightarrow> \<lparr>ending = Answered a, scratchpad = pad, trace = tr @ [Think, Finish]\<rparr>
         | ModelUnavailable \<Rightarrow>
             \<lparr>ending = UpstreamModelUnavailable, scratchpad = pad, trace = tr @ [Think]\<rparr>
         | ToolCalls calls \<Rightarrow>
             orchestrate cap think invoke (Suc n) (pad @ map (invoke_tool invoke) calls)
               (tr @ [Think, Act, Observe])))"
  by pat_completeness auto

termination orchestrate
  by (relation "measure (\<lambda>(cap, think, invoke, n, pad, tr). cap - n)") auto

declare orchestrate.simps [simp del]

text \<open>Modelled from the spec: one turn, run once per inbound chat message.\<close>

definition run_turn :: "agent_config \<Rightarrow> (ToolInvocationRecord list \<Rightarrow> decision) \<Rightarrow>
    (tool_call \<Rightarrow> string + json) \<Rightarrow> turn_run" where
  "run_turn cfg think invoke = orchestrate (max_iterations cfg) think invoke 0 [] [Start]"

section \<open>The Endpoint Registry\<close>

text \<open>
  Modelled from the spec: the Endpoint Registry. The generator of the backend is not
  among the sources; the architecture document only names its \<open>port_counter\<close>. The
  registry holds the live endpoints, each name with its address, and the counter the
  next address is taken from. Whether the Spec Translator accepts the description and
  whether the endpoint reports Running in time are inputs of \<open>register\<close>.
\<close>

record registry =
  live :: "(string \<times> nat) list"
  counter :: nat

datatype registry_error = DuplicateName | InvalidSpec | StartupTimeout | NotFound



text \<open>
  Modelled from the spec: \<open>register\<close>, missing from the sources. It fails with
  \<open>DuplicateName\<close> for a live name and with \<open>InvalidSpec\<close>, starting nothing, when the
  translation fails; otherwise it takes the next address from the counter, and the
  endpoint either reports Running and becomes live, or times out and is cleaned up.
\<close>

definition register :: "string \<Rightarrow> bool \<Rightarrow> bool \<Rightarrow> registry \<Rightarrow> registry \<times> (registry_error + nat)" where
  "register nm translated started reg =
     (if nm \<in> set (map fst (live reg)) then (reg, Inl DuplicateName)
      else if \<not> translated then (reg, Inl InvalidSpec)
      else
        let address = counter reg;
            reg = reg\<lparr>counter := Suc (counter reg)\<rparr>
        in if started then (reg\<lparr>live := live reg @ [(nm, address)]\<rparr>, Inr address)
           else (reg, Inl StartupTimeout))"





section \<open>Invariants\<close>

text \<open>
  The form holds no specification or one that validateOpenAPISpec accepted. In the
  registry names are pairwise distinct, addresses are pairwise distinct, and every
  address is below the counter.
\<close>

definition form_inv :: "registration_form \<Rightarrow> bool" where
  "form_inv f = (case openapi_spec (formData f) of None \<Rightarrow> True | Some s \<Rightarrow> spec_accepted s)"


section \<open>Sample inputs\<close>

definition fresh_world :: world where
  "fresh_world = \<lparr>auth_state = initial_auth, issued = [], ticks = 0\<rparr>"

definition sample_clock :: clock where
  "sample_clock = (\<lambda>k. 1000 + k)"

definition unauthorized :: fault where
  "unauthorized = \<lparr>fault_message = ''Request failed with status code 401'',
     fault_stack = ''AxiosError: Request failed with status code 401 at settle'',
     fault_request = True,
     fault_response = Some \<lparr>status = 401, data = JObj [(''detail'', JStr ''Unauthorized'')]\<rparr>\<rparr>"

definition timed_out :: fault where
  "timed_out = \<lparr>fault_message = ''timeout of 30000ms exceeded'',
     fault_stack = ''AxiosError: timeout of 30000ms exceeded at XMLHttpRequest.handleTimeout'',
     fault_request = True, fault_response = None\<rparr>"

definition name_taken :: fault where
  "name_taken = \<lparr>fault_message = ''Request failed with status code 409'',
     fault_stack = ''AxiosError: Request failed with status code 409 at settle'',
     fault_request = True,
     fault_response = Some \<lparr>status = 409,
       data = JObj [(''message'', JStr ''Service already registered'')]\<rparr>\<rparr>"

definition gateway_down :: fault where
  "gateway_down = \<lparr>fault_message = ''Request failed with status code 502'',
     fault_stack = ''AxiosError: Request failed with status code 502 at settle'',
     fault_request = True,
     fault_response = Some \<lparr>status = 502, data = JStr ''Bad Gateway''\<rparr>\<rparr>"

definition unsent :: axios_error where
  "unsent = \<lparr>error_message = ''Invalid URL'',
     error_stack = ''TypeError: Invalid URL at dispatchRequest'',
     error_config = post ''/chat'' JNull, error_request = False, error_response = None\<rparr>"

definition answering :: "ChatResponse network" where
  "answering = (\<lambda>n c. Resolved \<lparr>status = 200, data = \<lparr>response = ''I found 25 employees'',
     tools_used = [''list_employees''], response_session_id = ''session_1002''\<rparr>\<rparr>)"

definition sample_url_parses :: "string \<Rightarrow> bool" where
  "sample_url_parses s = (s = ''https://x.test'')"

definition users_spec :: json where
  "users_spec = JObj [(''openapi'', JStr ''3.0.0''),
     (''info'', JObj [(''title'', JStr ''Users''), (''version'', JStr ''1.0'')]),
     (''paths'', JObj [(''/users'', JObj [(''get'', JObj [])])])]"

definition sample_json_parse :: "string \<Rightarrow> json option" where
  "sample_json_parse t =
     (if t = ''users.json'' then Some users_spec
      else if t = ''{}'' then Some (JObj [])
      else None)"

definition accepting :: "json network" where
  "accepting = (\<lambda>n c. Resolved \<lparr>status = 200, data = JObj [(''message'', JStr ''registered'')]\<rparr>)"

definition insisting :: "ToolInvocationRecord list \<Rightarrow> decision" where
  "insisting pad = ToolCalls [\<lparr>call_tool = ''users.list_users'', call_arguments = JObj []\<rparr>]"

definition failing_invoke :: "tool_call \<Rightarrow> string + json" where
  "failing_invoke c = Inl ''UnknownTool''"

section \<open>Properties of validateOpenAPISpec\<close>

lemma js_and_Inr:
  "js_and (Inr v) b = (if truthy v then b else Inr v)"
  by (simp add: js_and_def)

lemma validateOpenAPISpec_total: "\<exists>v. validateOpenAPISpec spec = Inr v"
proof (cases spec)
  case (JObj kvs)
  show ?thesis
  proof (cases "map_of kvs ''info''")
    case None
    then show ?thesis using JObj
      by (simp add: validateOpenAPISpec_def js_and_def js_bind_def split: option.splits)
  next
    case (Some i)
    then show ?thesis using JObj
      by (cases i; cases "map_of kvs ''paths''")
         (simp_all add: validateOpenAPISpec_def js_and_def js_bind_def split: option.splits)
  qed
qed (simp_all add: validateOpenAPISpec_def js_and_def js_bind_def)

lemma spec_accepted_object:
  "spec_accepted (JObj kvs) =
     (truthy (js_get_opt (JObj kvs) ''openapi'') \<and> has_title (JObj kvs) \<and>
      has_version (JObj kvs) \<and> is_container (js_get_opt (JObj kvs) ''paths''))"
proof (cases "map_of kvs ''info''")
  case None
  then show ?thesis
    by (simp add: spec_accepted_def validateOpenAPISpec_def js_and_def js_bind_def
        has_title_def has_version_def split: option.splits)
next
  case (Some i)
  then show ?thesis
  proof (cases "map_of kvs ''paths''")
    case None
    with Some show ?thesis
      by (cases i)
         (simp_all add: spec_accepted_def validateOpenAPISpec_def js_and_def js_bind_def
           has_title_def has_version_def is_container_def split: option.splits)
  next
    case (Some p)
    with \<open>map_of kvs ''info'' = Some i\<close> show ?thesis
      by (cases i; cases p)
         (simp_all add: spec_accepted_def validateOpenAPISpec_def js_and_def js_bind_def
           has_title_def has_version_def is_container_def split: option.splits)
  qed
qed

text \<open>
  C1 (as amended). validateOpenAPISpec never throws, and it accepts a candidate exactly
  when the candidate has a truthy \<open>openapi\<close> member, a title, a version, and a \<open>paths\<close>
  member that is an object or an array, possibly an empty one. A non-empty set of paths
  is not required, the \<open>openapi\<close> member is.
\<close>

theorem validateOpenAPISpec_accepts_iff:
  "(\<exists>v. validateOpenAPISpec spec = Inr v) \<and>
   spec_accepted spec =
     (truthy (js_get_opt spec ''openapi'') \<and> has_title spec \<and> has_version spec \<and>
      is_container (js_get_opt spec ''paths''))"
proof (cases spec)
  case (JObj kvs)
  then show ?thesis
    using spec_accepted_object [of kvs] validateOpenAPISpec_total [of spec] by simp
qed (simp_all add: spec_accepted_def validateOpenAPISpec_def js_and_def js_bind_def)

text \<open>
  C1 as stated fails in both directions: a document with a title, a version and an
  empty \<open>paths\<close> object is accepted, and a document with a title, a version and one
  path but no \<open>openapi\<close> member is rejected.
\<close>

theorem validateOpenAPISpec_minimum_shape_counterexample:
  "spec_accepted (JObj [(''openapi'', JStr ''3.0.0''),
        (''info'', JObj [(''title'', JStr ''Users''), (''version'', JStr ''1.0'')]),
        (''paths'', JObj [])])
   \<and> \<not> spec_minimum_shape (JObj [(''openapi'', JStr ''3.0.0''),
        (''info'', JObj [(''title'', JStr ''Users''), (''version'', JStr ''1.0'')]),
        (''paths'', JObj [])])
   \<and> \<not> spec_accepted (JObj [
        (''info'', JObj [(''title'', JStr ''Users''), (''version'', JStr ''1.0'')]),
        (''paths'', JObj [(''/users'', JObj [(''get'', JObj [])])])])
   \<and> spec_minimum_shape (JObj [
        (''info'', JObj [(''title'', JStr ''Users''), (''version'', JStr ''1.0'')]),
        (''paths'', JObj [(''/users'', JObj [(''get'', JObj [])])])])"
  by (simp add: spec_accepted_def validateOpenAPISpec_def js_and_def js_bind_def
      spec_minimum_shape_def has_title_def has_version_def has_some_path_def)

section \<open>Properties of the HTTP client\<close>

lemma request_interceptor_retry [simp]:
  "retry (request_interceptor a config) = retry config"
  by (simp add: request_interceptor_def split: option.splits)

lemma client_resolved:
  "net (length (issued w)) (request_interceptor (auth_state w) config) = Resolved r \<Longrightarrow>
   client net w config =
     (w\<lparr>issued := issued w @ [request_interceptor (auth_state w) config]\<rparr>, Inr r)"
  by (subst client.simps) (simp add: Let_def)

lemma client_marked:
  "retry config \<Longrightarrow>
   net (length (issued w)) (request_interceptor (auth_state w) config) = Failed f \<Longrightarrow>
   client net w config =
     (w\<lparr>issued := issued w @ [request_interceptor (auth_state w) config]\<rparr>,
      Inl (Structured (handleError (mk_error f (request_interceptor (auth_state w) config)))))"
  by (subst client.simps) (simp add: Let_def response_rejected_def mk_error_def)

lemma client_marked_issued:
  "retry config \<Longrightarrow>
   issued (fst (client net w config)) =
     issued w @ [request_interceptor (auth_state w) config]"
  by (cases "net (length (issued w)) (request_interceptor (auth_state w) config)")
     (simp_all add: client_resolved client_marked)

lemma response_rejected_Retry:
  "response_rejected w e = (w', Retry c) \<Longrightarrow>
   w' = w \<and> retry c \<and> \<not> retry (error_config e) \<and> has_status e 401"
  by (auto simp: response_rejected_def Let_def split: if_splits option.splits)

lemma response_rejected_Rejects:
  "response_rejected w e = (w', Rejects x) \<Longrightarrow> issued w' = issued w"
  by (auto simp: response_rejected_def Let_def split: if_splits option.splits)

lemma client_issued:
  "\<exists>cs. issued (fst (client net w config)) = issued w @ request_interceptor (auth_state w) config # cs
     \<and> length cs \<le> 1 \<and> (\<forall>c\<in>set cs. retry c) \<and> (retry config \<longrightarrow> cs = [])"
proof (cases "net (length (issued w)) (request_interceptor (auth_state w) config)")
  case (Resolved r)
  then show ?thesis by (simp add: client_resolved)
next
  case (Failed f)
  let ?c1 = "request_interceptor (auth_state w) config"
  let ?w1 = "w\<lparr>issued := issued w @ [?c1]\<rparr>"
  obtain w2 v where rr: "response_rejected ?w1 (mk_error f ?c1) = (w2, v)"
    by (cases "response_rejected ?w1 (mk_error f ?c1)")
  show ?thesis
  proof (cases v)
    case (Retry c2)
    with rr have w2: "w2 = ?w1" and c2: "retry c2" and nr: "\<not> retry config"
      using response_rejected_Retry [of ?w1 "mk_error f ?c1" w2 c2]
      by (simp_all add: mk_error_def)
    have "client net w config = client net ?w1 c2"
      using Failed rr Retry w2 by (subst client.simps) (simp add: Let_def)
    then show ?thesis
      using client_marked_issued [OF c2, of net ?w1] c2 nr by simp
  next
    case (Rejects x)
    have "client net w config = (w2, Inl x)"
      using Failed rr Rejects by (subst client.simps) (simp add: Let_def)
    then show ?thesis
      using response_rejected_Rejects [of ?w1 "mk_error f ?c1" w2 x] rr Rejects by simp
  qed
qed

text \<open>
  C8. Whatever the transport answers, one call of the client hands at most two requests
  to it, the second one marked; a marked request is handed over once. When the first
  answer is a 401, a token is at hand and the answer to the marked request is a 401
  again, the call ends with the structured error of status 401 after exactly these two
  requests.
\<close>

theorem client_retries_401_at_most_once:
  "length (issued (fst (client net w config))) \<le> length (issued w) + 2
   \<and> (\<forall>c \<in> set (drop (Suc (length (issued w))) (issued (fst (client net w config)))). retry c)
   \<and> (retry config \<longrightarrow> length (issued (fst (client net w config))) = Suc (length (issued w)))
   \<and> (\<not> retry config \<and> getToken (auth_state w) = Some t \<and> t \<noteq> [] \<and>
       net (length (issued w)) (config\<lparr>authorization := Some (''Bearer '' @ t)\<rparr>) = Failed f1 \<and>
       fault_response f1 = Some r1 \<and> status r1 = 401 \<and>
       net (Suc (length (issued w)))
         (config\<lparr>authorization := Some (''Bearer '' @ t), retry := True\<rparr>) = Failed f2 \<and>
       fault_response f2 = Some r2 \<and> status r2 = 401
       \<longrightarrow> client net w config =
             (w\<lparr>issued := issued w @ [config\<lparr>authorization := Some (''Bearer '' @ t)\<rparr>,
                config\<lparr>authorization := Some (''Bearer '' @ t), retry := True\<rparr>]\<rparr>,
              Inl (Structured (handleError (mk_error f2
                (config\<lparr>authorization := Some (''Bearer '' @ t), retry := True\<rparr>)))))
           \<and> api_status (handleError (mk_error f2
                (config\<lparr>authorization := Some (''Bearer '' @ t), retry := True\<rparr>))) = Some 401)"
proof -
  let ?n = "length (issued w)"
  obtain cs where cs: "issued (fst (client net w config)) =
      issued w @ request_interceptor (auth_state w) config # cs"
    "length cs \<le> 1" "\<forall>c\<in>set cs. retry c" "retry config \<longrightarrow> cs = []"
    using client_issued [of net w config] by blast
  have a: "length (issued (fst (client net w config))) \<le> ?n + 2"
    using cs by simp
  have b: "\<forall>c \<in> set (drop (Suc ?n) (issued (fst (client net w config)))). retry c"
    using cs by simp
  have c: "retry config \<longrightarrow> length (issued (fst (client net w config))) = Suc ?n"
    using cs by simp
  have d: "client net w config =
             (w\<lparr>issued := issued w @ [config\<lparr>authorization := Some (''Bearer '' @ t)\<rparr>,
                config\<lparr>authorization := Some (''Bearer '' @ t), retry := True\<rparr>]\<rparr>,
              Inl (Structured (handleError (mk_error f2
                (config\<lparr>authorization := Some (''Bearer '' @ t), retry := True\<rparr>)))))
           \<and> api_status (handleError (mk_error f2
                (config\<lparr>authorization := Some (''Bearer '' @ t), retry := True\<rparr>))) = Some 401"
    if h: "\<not> retry config" "getToken (auth_state w) = Some t" "t \<noteq> []"
      "net ?n (config\<lparr>authorization := Some (''Bearer '' @ t)\<rparr>) = Failed f1"
      "fault_response f1 = Some r1" "status r1 = 401"
      "net (Suc ?n) (config\<lparr>authorization := Some (''Bearer '' @ t), retry := True\<rparr>) = Failed f2"
      "fault_response f2 = Some r2" "status r2 = 401"
  proof -
    let ?c1 = "config\<lparr>authorization := Some (''Bearer '' @ t)\<rparr>"
    let ?c2 = "config\<lparr>authorization := Some (''Bearer '' @ t), retry := True\<rparr>"
    let ?w1 = "w\<lparr>issued := issued w @ [?c1]\<rparr>"
    have ri1: "request_interceptor (auth_state w) config = ?c1"
      using h(2,3) by (simp add: request_interceptor_def)
    have ri2: "request_interceptor (auth_state ?w1) ?c2 = ?c2"
      using h(2,3) by (simp add: request_interceptor_def)
    have rr: "response_rejected ?w1 (mk_error f1 ?c1) = (?w1, Retry ?c2)"
      using h by (simp add: response_rejected_def mk_error_def has_status_def updateToken_def Let_def)
    have step1: "client net w config = client net ?w1 ?c2"
      using h(4) ri1 rr by (subst client.simps) (simp add: Let_def)
    have step2: "client net ?w1 ?c2 =
        (?w1\<lparr>issued := issued ?w1 @ [?c2]\<rparr>, Inl (Structured (handleError (mk_error f2 ?c2))))"
      using client_marked [of ?c2 net ?w1 f2] h(7) ri2 by simp
    have st: "api_status (handleError (mk_error f2 ?c2)) = Some 401"
      using h(8,9) by (simp add: handleError_def mk_error_def)
    show ?thesis using step1 step2 st by simp
  qed
  show ?thesis using a b c d by blast
qed

theorem client_retries_401_at_most_once_witness:
  "client (\<lambda>n c. Failed unauthorized :: json wire) fresh_world (post ''/services'' JNull) =
     (fresh_world\<lparr>issued :=
        [(post ''/services'' JNull)\<lparr>authorization := Some ''Bearer mock-jwt-token''\<rparr>,
         (post ''/services'' JNull)\<lparr>authorization := Some ''Bearer mock-jwt-token'', retry := True\<rparr>]\<rparr>,
      Inl (Structured \<lparr>api_message = JStr ''Unauthorized'', api_status = Some 401,
        api_details = Some (JObj [(''detail'', JStr ''Unauthorized'')])\<rparr>))"
  using client_retries_401_at_most_once [of "\<lambda>n c. Failed unauthorized :: json wire" fresh_world
      "post ''/services'' JNull" "''mock-jwt-token''" unauthorized
      "\<lparr>status = 401, data = JObj [(''detail'', JStr ''Unauthorized'')]\<rparr>" unauthorized
      "\<lparr>status = 401, data = JObj [(''detail'', JStr ''Unauthorized'')]\<rparr>"]
  by (simp add: fresh_world_def initial_auth_def getToken_def post_def unauthorized_def
      handleError_def mk_error_def js_or_def)

lemma trim_Nil_iff: "trim s = [] \<longleftrightarrow> (\<forall>c\<in>set s. is_space c)"
proof
  assume t: "trim s = []"
  show "\<forall>c\<in>set s. is_space c"
  proof (cases "dropWhile is_space s")
    case Nil
    then show ?thesis by (simp add: dropWhile_eq_Nil_conv)
  next
    case (Cons x xs)
    then have nx: "\<not> is_space x" using hd_dropWhile [of is_space s] by simp
    from t have "\<forall>c \<in> set (rev (dropWhile is_space s)). is_space c"
      by (simp add: trim_def dropWhile_eq_Nil_conv)
    with Cons nx show ?thesis by simp
  qed
next
  assume "\<forall>c\<in>set s. is_space c"
  then have "dropWhile is_space s = []" by (simp only: dropWhile_eq_Nil_conv)
  then show "trim s = []" by (simp only: trim_def rev.simps dropWhile.simps)
qed

text \<open>
  C9. sendMessage with a message of white space only, or an empty one, changes nothing:
  the requests issued, the clock readings, the message list and the loading flag are
  as before.
\<close>

theorem sendMessage_blank_is_noop:
  "\<forall>c\<in>set msg. is_space c \<Longrightarrow> sendMessage clock net msg (w, h) = (w, h)"
  using trim_Nil_iff [of msg] by (simp add: sendMessage_def)

theorem sendMessage_blank_is_noop_witness:
  "trim [CHR 0x20, CHR 0x09, CHR 0x20] = []
   \<and> sendMessage sample_clock answering [CHR 0x20, CHR 0x09, CHR 0x20] (fresh_world, initial_hook)
     = (fresh_world, initial_hook)"
proof -
  have h: "\<forall>c\<in>set [CHR 0x20, CHR 0x09, CHR 0x20]. is_space c"
    by (simp add: is_space_def)
  show ?thesis
    using sendMessage_blank_is_noop [OF h, of sample_clock answering fresh_world initial_hook] h
    by (simp add: trim_def)
qed

lemma sendMessage_success:
  assumes "trim msg \<noteq> []"
    and "sendChatMessage net (w\<lparr>ticks := ticks w + 3\<rparr>)
           \<lparr>message = msg, session_id = ''session_'' @ toString (clock (ticks w + 2))\<rparr> = (w', Inr r)"
  shows "sendMessage clock net msg (w, h) =
     (w'\<lparr>ticks := ticks w' + 2\<rparr>,
      h\<lparr>messages := messages h @
          [\<lparr>entry_id = toString (clock (ticks w)), content = msg, sender = User,
            timestamp = clock (ticks w + 1), entry_tools_used = None\<rparr>,
           \<lparr>entry_id = toString (clock (ticks w') + 1), content = response r, sender = Assistant,
            timestamp = clock (ticks w' + 1), entry_tools_used = Some (tools_used r)\<rparr>],
        isLoading := False\<rparr>)"
  using assms by (simp add: sendMessage_def now_def Let_def numeral_3_eq_3)

lemma response_rejected_ticks:
  "response_rejected w e = (w', v) \<Longrightarrow> ticks w' = ticks w"
  by (auto simp: response_rejected_def Let_def split: if_splits option.splits)

lemma client_ticks: "ticks (fst (client net w config)) = ticks w"
proof (induction net w config rule: client.induct)
  case (1 net w config)
  let ?c1 = "request_interceptor (auth_state w) config"
  let ?w1 = "w\<lparr>issued := issued w @ [?c1]\<rparr>"
  show ?case
  proof (cases "net (length (issued w)) ?c1")
    case (Resolved r)
    then show ?thesis by (subst client.simps) (simp add: Let_def)
  next
    case (Failed f)
    obtain w2 v where rr: "response_rejected ?w1 (mk_error f ?c1) = (w2, v)"
      by (cases "response_rejected ?w1 (mk_error f ?c1)")
    have t2: "ticks w2 = ticks w" using response_rejected_ticks [OF rr] by simp
    show ?thesis
    proof (cases v)
      case (Retry c2)
      have "client net w config = client net w2 c2"
        using Failed rr Retry by (subst client.simps) (simp add: Let_def)
      moreover have "ticks (fst (client net w2 c2)) = ticks w2"
        using "1.IH" [OF refl refl Failed rr [symmetric] Retry] .
      ultimately show ?thesis using t2 by simp
    next
      case (Rejects x)
      have "client net w config = (w2, Inl x)"
        using Failed rr Rejects by (subst client.simps) (simp add: Let_def)
      then show ?thesis using t2 by simp
    qed
  qed
qed

lemma sendChatMessage_body:
  "client net w (post ''/chat'' (chat_payload m)) = (w1, Inr resp) \<Longrightarrow>
   sendChatMessage net w m = (w1, Inr (data resp))"
  by (simp add: sendChatMessage_def)

lemma sendChatMessage_cases:
  "sendChatMessage net w m = (w', Inr r) \<Longrightarrow>
   \<exists>resp. client net w (post ''/chat'' (chat_payload m)) = (w', Inr resp) \<and> r = data resp"
  by (auto simp: sendChatMessage_def split: prod.splits sum.splits)

text \<open>
  C4. A successful chat call returns the body of the response, with its answer, its
  tools used and its session id; sendMessage then has appended the user's message and
  exactly one assistant message, whose content is the returned answer and whose tools
  are the returned tools.
\<close>

theorem sendMessage_success_appends_answer:
  assumes "trim msg \<noteq> []"
    and "sendChatMessage net (w\<lparr>ticks := ticks w + 3\<rparr>)
           \<lparr>message = msg, session_id = ''session_'' @ toString (clock (ticks w + 2))\<rparr> = (w', Inr r)"
  shows "(\<exists>resp. client net (w\<lparr>ticks := ticks w + 3\<rparr>)
             (post ''/chat'' (chat_payload
               \<lparr>message = msg, session_id = ''session_'' @ toString (clock (ticks w + 2))\<rparr>))
             = (w', Inr resp)
           \<and> r = \<lparr>response = response (data resp), tools_used = tools_used (data resp),
                  response_session_id = response_session_id (data resp)\<rparr>)
     \<and> messages (snd (sendMessage clock net msg (w, h))) = messages h @
          [\<lparr>entry_id = toString (clock (ticks w)), content = msg, sender = User,
            timestamp = clock (ticks w + 1), entry_tools_used = None\<rparr>,
           \<lparr>entry_id = toString (clock (ticks w + 3) + 1), content = response r,
            sender = Assistant, timestamp = clock (ticks w + 4),
            entry_tools_used = Some (tools_used r)\<rparr>]
     \<and> length (filter (\<lambda>m. sender m = Assistant) (messages (snd (sendMessage clock net msg (w, h)))))
         = Suc (length (filter (\<lambda>m. sender m = Assistant) (messages h)))"
proof -
  have a: "\<exists>resp. client net (w\<lparr>ticks := ticks w + 3\<rparr>)
             (post ''/chat'' (chat_payload
               \<lparr>message = msg, session_id = ''session_'' @ toString (clock (ticks w + 2))\<rparr>))
             = (w', Inr resp)
           \<and> r = \<lparr>response = response (data resp), tools_used = tools_used (data resp),
                  response_session_id = response_session_id (data resp)\<rparr>"
    using sendChatMessage_cases [OF assms(2)] by auto
  have s: "sendMessage clock net msg (w, h) =
     (w'\<lparr>ticks := ticks w' + 2\<rparr>,
      h\<lparr>messages := messages h @
          [\<lparr>entry_id = toString (clock (ticks w)), content = msg, sender = User,
            timestamp = clock (ticks w + 1), entry_tools_used = None\<rparr>,
           \<lparr>entry_id = toString (clock (ticks w') + 1), content = response r, sender = Assistant,
            timestamp = clock (ticks w' + 1), entry_tools_used = Some (tools_used r)\<rparr>],
        isLoading := False\<rparr>)"
    using sendMessage_success [of msg net w clock w' r h] assms by simp
  have tk: "ticks w' = ticks w + 3"
  proof -
    from a obtain resp where "client net (w\<lparr>ticks := ticks w + 3\<rparr>)
             (post ''/chat'' (chat_payload
               \<lparr>message = msg, session_id = ''session_'' @ toString (clock (ticks w + 2))\<rparr>))
             = (w', Inr resp)" by blast
    then have "fst (client net (w\<lparr>ticks := ticks w + 3\<rparr>)
             (post ''/chat'' (chat_payload
               \<lparr>message = msg, session_id = ''session_'' @ toString (clock (ticks w + 2))\<rparr>))) = w'"
      by simp
    then show ?thesis
      using client_ticks [of net "w\<lparr>ticks := ticks w + 3\<rparr>" "post ''/chat'' (chat_payload
               \<lparr>message = msg, session_id = ''session_'' @ toString (clock (ticks w + 2))\<rparr>)"]
      by simp
  qed
  have b: "messages (snd (sendMessage clock net msg (w, h))) = messages h @
          [\<lparr>entry_id = toString (clock (ticks w)), content = msg, sender = User,
            timestamp = clock (ticks w + 1), entry_tools_used = None\<rparr>,
           \<lparr>entry_id = toString (clock (ticks w + 3) + 1), content = response r,
            sender = Assistant, timestamp = clock (ticks w + 4),
            entry_tools_used = Some (tools_used r)\<rparr>]"
    unfolding s using tk by (simp add: add.commute)
  have c: "length (filter (\<lambda>m. sender m = Assistant) (messages (snd (sendMessage clock net msg (w, h)))))
         = Suc (length (filter (\<lambda>m. sender m = Assistant) (messages h)))"
    unfolding s by simp
  show ?thesis using a b c by blast
qed

theorem sendMessage_success_appends_answer_witness:
  "messages (snd (sendMessage sample_clock answering ''Get all employees'' (fresh_world, initial_hook)))
     = [\<lparr>entry_id = ''1000'', content = ''Get all employees'', sender = User, timestamp = 1001,
          entry_tools_used = None\<rparr>,
        \<lparr>entry_id = ''1004'', content = ''I found 25 employees'', sender = Assistant,
          timestamp = 1004, entry_tools_used = Some [''list_employees'']\<rparr>]"
proof -
  have t: "trim ''Get all employees'' \<noteq> []"
    by (simp add: trim_def is_space_def)
  have c: "sendChatMessage answering (fresh_world\<lparr>ticks := ticks fresh_world + 3\<rparr>)
           \<lparr>message = ''Get all employees'',
            session_id = ''session_'' @ toString (sample_clock (ticks fresh_world + 2))\<rparr>
         = (fresh_world\<lparr>ticks := 3, issued := [post ''/chat'' (chat_payload
               \<lparr>message = ''Get all employees'', session_id = ''session_1002''\<rparr>)
               \<lparr>authorization := Some ''Bearer mock-jwt-token''\<rparr>]\<rparr>,
            Inr \<lparr>response = ''I found 25 employees'',
              tools_used = [''list_employees''], response_session_id = ''session_1002''\<rparr>)"
    by (simp add: sendChatMessage_def client.simps answering_def fresh_world_def sample_clock_def
        request_interceptor_def getToken_def initial_auth_def toString.simps digit_def Let_def)
  show ?thesis
    using sendMessage_success_appends_answer [of "''Get all employees''" answering fresh_world
        sample_clock _ _ initial_hook] t c
    by (simp add: initial_hook_def fresh_world_def sample_clock_def toString.simps digit_def)
qed

text \<open>
  C5. Two messages sent one after the other through the same hook carry different
  session ids: each id is made from the clock reading taken when the message is sent.
\<close>

theorem sendMessage_fresh_session_per_message:
  "map (\<lambda>c. js_get_opt (req_data c) ''session_id'')
     (issued (fst (sendMessage sample_clock answering ''And their managers?''
        (sendMessage sample_clock answering ''Get all employees'' (fresh_world, initial_hook)))))
   = [JStr ''session_1002'', JStr ''session_1007'']"
  by (simp add: sendMessage_def now_def sendChatMessage_def client.simps answering_def
      fresh_world_def sample_clock_def request_interceptor_def getToken_def initial_auth_def
      toString.simps digit_def Let_def trim_def is_space_def post_def chat_payload_def
      initial_hook_def)

text \<open>
  C10. After logout followed by login, \<open>isAuthenticated\<close> is true and \<open>getToken\<close> returns
  the empty string: logout clears the token and login does not restore it.
\<close>

theorem keycloak_relogin_loses_token:
  "isAuthenticated (auth_run [Logout, Login]) \<and> getToken (auth_run [Logout, Login]) = Some []"
  by (simp add: auth_run_def isAuthenticated_def getToken_def login_def logout_def initial_auth_def)

text \<open>
  C6 as stated fails for an error without a response and without a request: the
  structured error carries the error's own message and no status.
\<close>

theorem handleError_unsent_counterexample:
  "error_response unsent = None
   \<and> handleError unsent =
       \<lparr>api_message = JStr ''Invalid URL'', api_status = None, api_details = None\<rparr>
   \<and> handleError unsent \<noteq>
       \<lparr>api_message = JStr ''Network error - please check your connection'',
        api_status = Some 0, api_details = None\<rparr>"
  by (simp add: unsent_def handleError_def js_or_def)

lemma truthy_js_or: "truthy b \<Longrightarrow> truthy (js_or a b)"
  by (simp add: js_or_def)

text \<open>
  C6 (as amended). Every structured error carries a non-empty message. When the server
  responded, the message is the \<open>detail\<close> member of the body when that is truthy,
  else the \<open>message\<close> member of the body when that is truthy, else \<open>Server error\<close>, and
  the error carries the status and the body of the response; when the request was
  made and no response came, it is the network error with status 0; when no request was
  made, it carries the error's own message, or a generic one, and no status. The stack
  and the request configuration of the error never enter it. The rejection handler
  turns every error into such a structured error, except a 401 on a request not yet
  marked.
\<close>

theorem handleError_structured:
  "truthy (api_message (handleError e))
   \<and> (\<forall>r. error_response e = Some r \<longrightarrow>
         api_message (handleError e) =
           (if truthy (js_get_opt (data r) ''detail'') then js_get_opt (data r) ''detail''
            else if truthy (js_get_opt (data r) ''message'') then js_get_opt (data r) ''message''
            else JStr ''Server error'')
         \<and> api_status (handleError e) = Some (status r)
         \<and> api_details (handleError e) = Some (data r))
   \<and> (error_response e = None \<and> error_request e \<longrightarrow>
         handleError e = \<lparr>api_message = JStr ''Network error - please check your connection'',
           api_status = Some 0, api_details = None\<rparr>)
   \<and> (error_response e = None \<and> \<not> error_request e \<longrightarrow>
         handleError e = \<lparr>api_message = JStr (if error_message e = []
             then ''An unexpected error occurred'' else error_message e),
           api_status = None, api_details = None\<rparr>)
   \<and> handleError (e\<lparr>error_stack := s, error_config := c\<rparr>) = handleError e
   \<and> (\<not> (has_status e 401 \<and> \<not> retry (error_config e)) \<longrightarrow>
         response_rejected w e = (w, Rejects (Structured (handleError e))))"
proof -
  have a: "truthy (api_message (handleError e))"
    by (cases "error_response e") (simp_all add: handleError_def truthy_js_or)
  have b: "\<forall>r. error_response e = Some r \<longrightarrow>
         api_message (handleError e) =
           (if truthy (js_get_opt (data r) ''detail'') then js_get_opt (data r) ''detail''
            else if truthy (js_get_opt (data r) ''message'') then js_get_opt (data r) ''message''
            else JStr ''Server error'')
         \<and> api_status (handleError e) = Some (status r)
         \<and> api_details (handleError e) = Some (data r)"
    by (simp add: handleError_def js_or_def)
  have c: "error_response e = None \<and> error_request e \<longrightarrow>
         handleError e = \<lparr>api_message = JStr ''Network error - please check your connection'',
           api_status = Some 0, api_details = None\<rparr>"
    by (simp add: handleError_def)
  have d: "error_response e = None \<and> \<not> error_request e \<longrightarrow>
         handleError e = \<lparr>api_message = JStr (if error_message e = []
             then ''An unexpected error occurred'' else error_message e),
           api_status = None, api_details = None\<rparr>"
    by (simp add: handleError_def js_or_def)
  have e: "handleError (e\<lparr>error_stack := s, error_config := c\<rparr>) = handleError e"
    by (simp add: handleError_def split: option.splits)
  have f: "\<not> (has_status e 401 \<and> \<not> retry (error_config e)) \<longrightarrow>
         response_rejected w e = (w, Rejects (Structured (handleError e)))"
    by (simp add: response_rejected_def Let_def)
  show ?thesis using a b c d e f by blast
qed

theorem handleError_structured_witness:
  "handleError (mk_error timed_out (post ''/chat'' JNull)) =
     \<lparr>api_message = JStr ''Network error - please check your connection'',
      api_status = Some 0, api_details = None\<rparr>
   \<and> api_message (handleError (mk_error unauthorized ((post ''/chat'' JNull)\<lparr>retry := True\<rparr>)))
       = JStr ''Unauthorized''
   \<and> api_status (handleError (mk_error unauthorized ((post ''/chat'' JNull)\<lparr>retry := True\<rparr>)))
       = Some 401
   \<and> response_rejected fresh_world (mk_error unauthorized ((post ''/chat'' JNull)\<lparr>retry := True\<rparr>))
       = (fresh_world, Rejects (Structured
           (handleError (mk_error unauthorized ((post ''/chat'' JNull)\<lparr>retry := True\<rparr>)))))
   \<and> api_message (handleError (mk_error name_taken (post ''/register-service'' JNull)))
       = JStr ''Service already registered''
   \<and> api_status (handleError (mk_error name_taken (post ''/register-service'' JNull))) = Some 409
   \<and> api_message (handleError (mk_error gateway_down (post ''/chat'' JNull))) = JStr ''Server error''
   \<and> api_status (handleError (mk_error gateway_down (post ''/chat'' JNull))) = Some 502
   \<and> handleError unsent =
       \<lparr>api_message = JStr ''Invalid URL'', api_status = None, api_details = None\<rparr>"
  using handleError_structured [of "mk_error timed_out (post ''/chat'' JNull)"]
    handleError_structured [of "mk_error unauthorized ((post ''/chat'' JNull)\<lparr>retry := True\<rparr>)"
      _ _ fresh_world]
    handleError_structured [of "mk_error name_taken (post ''/register-service'' JNull)"]
    handleError_structured [of "mk_error gateway_down (post ''/chat'' JNull)"]
    handleError_structured [of unsent]
  by (simp add: mk_error_def timed_out_def unauthorized_def name_taken_def gateway_down_def
      unsent_def post_def)

section \<open>Properties of the Orchestration Loop\<close>

lemma orchestrate_phase_bound:
  "q = Think \<or> q = Act \<Longrightarrow>
   length (filter (\<lambda>p. p = q) (trace (orchestrate cap think invoke n pad tr)))
     \<le> length (filter (\<lambda>p. p = q) tr) + (cap - n)"
proof (induction cap think invoke n pad tr rule: orchestrate.induct)
  case (1 cap think invoke n pad tr)
  show ?case
  proof (cases "cap \<le> n")
    case True
    then show ?thesis using "1.prems" by (subst orchestrate.simps) auto
  next
    case False
    show ?thesis
    proof (cases "think pad")
      case (FinalAnswer a)
      with False show ?thesis using "1.prems" by (subst orchestrate.simps) auto
    next
      case ModelUnavailable
      with False show ?thesis using "1.prems" by (subst orchestrate.simps) auto
    next
      case (ToolCalls calls)
      have "length (filter (\<lambda>p. p = q) (trace (orchestrate cap think invoke (Suc n)
               (pad @ map (invoke_tool invoke) calls) (tr @ [Think, Act, Observe]))))
            \<le> length (filter (\<lambda>p. p = q) (tr @ [Think, Act, Observe])) + (cap - Suc n)"
        using "1.IH" [OF False ToolCalls "1.prems"] .
      moreover have "orchestrate cap think invoke n pad tr =
          orchestrate cap think invoke (Suc n) (pad @ map (invoke_tool invoke) calls)
            (tr @ [Think, Act, Observe])"
        using False ToolCalls by (subst orchestrate.simps) simp
      ultimately show ?thesis using False "1.prems" by auto
    qed
  qed
qed

text \<open>
  C2. A turn of the Orchestration Loop takes at most as many Think steps, and at most as
  many Act steps, as the configured iteration cap, whatever the language model and the
  tools answer; the cap of the default configuration is 15.
\<close>

theorem orchestration_bounded_by_cap:
  "length (filter (\<lambda>p. p = Think) (trace (run_turn cfg think invoke))) \<le> max_iterations cfg
   \<and> length (filter (\<lambda>p. p = Act) (trace (run_turn cfg think invoke))) \<le> max_iterations cfg
   \<and> max_iterations default_agent_config = 15"
  using orchestrate_phase_bound [of Think "max_iterations cfg" think invoke 0 "[]" "[Start]"]
    orchestrate_phase_bound [of Act "max_iterations cfg" think invoke 0 "[]" "[Start]"]
  by (simp add: run_turn_def default_agent_config_def)

section \<open>Properties of the Endpoint Registry\<close>
















section \<open>Properties of the registration form\<close>

lemma request_interceptor_payload:
  "url (request_interceptor a config) = url config \<and>
   http_method (request_interceptor a config) = http_method config \<and>
   req_data (request_interceptor a config) = req_data config"
  by (simp add: request_interceptor_def split: option.splits)

lemma response_rejected_Retry_payload:
  "response_rejected w e = (w', Retry c) \<Longrightarrow>
   url c = url (error_config e) \<and> http_method c = http_method (error_config e) \<and>
   req_data c = req_data (error_config e)"
  by (auto simp: response_rejected_def Let_def split: if_splits option.splits)

lemma client_issued_payload:
  "\<exists>cs. issued (fst (client net w config)) = issued w @ cs \<and>
     list_all (\<lambda>c. url c = url config \<and> http_method c = http_method config \<and>
       req_data c = req_data config) cs"
proof (induction net w config rule: client.induct)
  case (1 net w config)
  let ?c1 = "request_interceptor (auth_state w) config"
  let ?w1 = "w\<lparr>issued := issued w @ [?c1]\<rparr>"
  note p1 = request_interceptor_payload [of "auth_state w" config]
  show ?case
  proof (cases "net (length (issued w)) ?c1")
    case (Resolved r)
    then have "client net w config = (?w1, Inr r)" by (rule client_resolved)
    then show ?thesis using p1 by simp
  next
    case (Failed f)
    obtain w2 v where rr: "response_rejected ?w1 (mk_error f ?c1) = (w2, v)"
      by (cases "response_rejected ?w1 (mk_error f ?c1)")
    show ?thesis
    proof (cases v)
      case (Retry c2)
      have w2: "w2 = ?w1" using response_rejected_Retry [of ?w1 "mk_error f ?c1" w2 c2] rr Retry by simp
      have p2: "url c2 = url config \<and> http_method c2 = http_method config \<and> req_data c2 = req_data config"
        using response_rejected_Retry_payload [of ?w1 "mk_error f ?c1" w2 c2] rr Retry p1
        by (simp add: mk_error_def)
      have eq: "client net w config = client net w2 c2"
        using Failed rr Retry by (subst client.simps) (simp add: Let_def)
      obtain cs where cs: "issued (fst (client net w2 c2)) = issued w2 @ cs"
        "list_all (\<lambda>c. url c = url c2 \<and> http_method c = http_method c2 \<and> req_data c = req_data c2) cs"
        using "1.IH" [OF refl refl Failed rr [symmetric] Retry] by blast
      have "issued (fst (client net w config)) = issued w @ (?c1 # cs)"
        using eq cs(1) w2 by simp
      moreover have "list_all (\<lambda>c. url c = url config \<and> http_method c = http_method config \<and>
          req_data c = req_data config) (?c1 # cs)"
        using cs(2) p1 p2 by (simp add: list_all_iff)
      ultimately show ?thesis by blast
    next
      case (Rejects x)
      have "client net w config = (w2, Inl x)"
        using Failed rr Rejects by (subst client.simps) (simp add: Let_def)
      moreover have "issued w2 = issued ?w1"
        using response_rejected_Rejects [of ?w1 "mk_error f ?c1" w2 x] rr Rejects by simp
      ultimately show ?thesis using p1 by simp
    qed
  qed
qed

lemma registerService_issued:
  "\<exists>cs. issued (fst (registerService net w c)) = issued w @ cs \<and>
     list_all (\<lambda>r. url r = ''/register-service'' \<and> http_method r = ''post'' \<and>
       req_data r = service_payload c) cs"
proof -
  have "fst (registerService net w c) = fst (client net w (post ''/register-service'' (service_payload c)))"
    by (simp add: registerService_def split: prod.splits sum.splits)
  then show ?thesis
    using client_issued_payload [of net w "post ''/register-service'' (service_payload c)"]
    by (simp add: post_def)
qed

lemma validateForm_formData: "formData (fst (validateForm up f)) = formData f"
  by (simp add: validateForm_def Let_def)

lemma put_not_Nil: "put k v xs \<noteq> []"
  by (cases xs) (auto split: if_splits)

lemma validateForm_passes:
  "snd (validateForm up f) \<Longrightarrow>
   trim (name (formData f)) \<noteq> [] \<and> up (base_url (formData f)) \<and>
   spec_present (openapi_spec (formData f))"
  by (auto simp: validateForm_def Let_def put_not_Nil split: if_splits)

lemma handleSubmit_formData: "formData (snd (handleSubmit up net (w, f))) = formData f"
  using validateForm_formData [of up f]
  by (auto simp: handleSubmit_def Let_def split: prod.splits bool.splits sum.splits)

lemma handleSubmit_rejected:
  "\<not> snd (validateForm up f) \<Longrightarrow> fst (handleSubmit up net (w, f)) = w"
  by (auto simp: handleSubmit_def split: prod.splits bool.splits)

lemma handleSubmit_issued:
  "snd (validateForm up f) \<Longrightarrow>
   \<exists>cs. issued (fst (handleSubmit up net (w, f))) = issued w @ cs \<and>
     list_all (\<lambda>r. url r = ''/register-service'' \<and> http_method r = ''post'' \<and>
       req_data r = service_payload (form_config (formData f))) cs"
proof -
  assume ok: "snd (validateForm up f)"
  obtain f1 where v: "validateForm up f = (f1, True)" using ok by (cases "validateForm up f") auto
  have fd: "formData f1 = formData f" using validateForm_formData [of up f] v by simp
  have "fst (handleSubmit up net (w, f)) =
      fst (registerService net w (form_config (formData f)))"
    using v fd by (auto simp: handleSubmit_def Let_def split: prod.splits sum.splits)
  then show ?thesis
    using registerService_issued [of net w "form_config (formData f)"] by simp
qed

lemma form_inv_handleFileSelect: "form_inv f \<Longrightarrow> form_inv (handleFileSelect jp file f)"
  by (auto simp: form_inv_def handleFileSelect_def spec_accepted_def
      split: option.splits sum.splits)

lemma form_inv_handleTextChange: "form_inv f \<Longrightarrow> form_inv (handleTextChange jp text f)"
  by (auto simp: form_inv_def handleTextChange_def spec_accepted_def Let_def
      split: option.splits sum.splits)

lemma form_inv_step:
  "form_inv f \<Longrightarrow> form_inv (snd (form_step up jp net (w, f) e))"
proof (cases e)
  case Submit
  assume "form_inv f"
  then show ?thesis using Submit handleSubmit_formData [of up net w f]
    by (simp add: form_inv_def)
qed (simp_all add: form_inv_handleFileSelect form_inv_handleTextChange,
     simp_all add: form_inv_def handleMethodChange_def)

lemma form_step_issued:
  assumes "form_inv f"
  shows "\<exists>cs. issued (fst (form_step up jp net (w, f) e)) = issued w @ cs \<and>
     list_all (\<lambda>c. \<exists>n b s. registration_of (trim n) (trim b) s c \<and> trim n \<noteq> [] \<and> up b \<and>
       spec_accepted s) cs"
proof (cases e)
  case Submit
  show ?thesis
  proof (cases "snd (validateForm up f)")
    case False
    then show ?thesis using Submit handleSubmit_rejected [of up f net w] by simp
  next
    case True
    from validateForm_passes [OF True]
    have n: "trim (name (formData f)) \<noteq> []" and b: "up (base_url (formData f))"
      and p: "spec_present (openapi_spec (formData f))" by simp_all
    from p obtain s where s: "openapi_spec (formData f) = Some s"
      by (auto simp: spec_present_def split: option.splits)
    with assms have acc: "spec_accepted s" by (simp add: form_inv_def)
    obtain cs where cs: "issued (fst (handleSubmit up net (w, f))) = issued w @ cs"
      "list_all (\<lambda>r. url r = ''/register-service'' \<and> http_method r = ''post'' \<and>
         req_data r = service_payload (form_config (formData f))) cs"
      using handleSubmit_issued [OF True, of net w] by blast
    have "list_all (\<lambda>c. \<exists>n b s. registration_of (trim n) (trim b) s c \<and> trim n \<noteq> [] \<and> up b \<and>
       spec_accepted s) cs"
      unfolding list_all_iff
    proof
      fix c assume "c \<in> set cs"
      with cs(2) have "registration_of (trim (name (formData f))) (trim (base_url (formData f))) s c"
        using s by (simp add: list_all_iff registration_of_def service_payload_def form_config_def)
      with n b acc show "\<exists>n b s. registration_of (trim n) (trim b) s c \<and> trim n \<noteq> [] \<and> up b \<and>
         spec_accepted s" by blast
    qed
    with cs(1) show ?thesis using Submit by auto
  qed
qed simp_all

lemma form_run_inv:
  assumes "form_inv f"
  shows "form_inv (snd (foldl (form_step up jp net) (w, f) events))
    \<and> (\<exists>cs. issued (fst (foldl (form_step up jp net) (w, f) events)) = issued w @ cs \<and>
         list_all (\<lambda>c. \<exists>n b s. registration_of (trim n) (trim b) s c \<and> trim n \<noteq> [] \<and> up b \<and>
           spec_accepted s) cs)"
  using assms
proof (induction events arbitrary: w f)
  case Nil
  then show ?case by simp
next
  case (Cons e events)
  obtain w1 f1 where st: "form_step up jp net (w, f) e = (w1, f1)"
    by (cases "form_step up jp net (w, f) e")
  have f1: "form_inv f1" using form_inv_step [OF Cons.prems, of up jp net w e] st by simp
  obtain cs1 where cs1: "issued w1 = issued w @ cs1"
    "list_all (\<lambda>c. \<exists>n b s. registration_of (trim n) (trim b) s c \<and> trim n \<noteq> [] \<and> up b \<and>
       spec_accepted s) cs1"
    using form_step_issued [OF Cons.prems, of up jp net w e] st by auto
  from Cons.IH [OF f1, of w1] obtain cs2 where
    inv2: "form_inv (snd (foldl (form_step up jp net) (w1, f1) events))" and
    cs2: "issued (fst (foldl (form_step up jp net) (w1, f1) events)) = issued w1 @ cs2"
    "list_all (\<lambda>c. \<exists>n b s. registration_of (trim n) (trim b) s c \<and> trim n \<noteq> [] \<and> up b \<and>
       spec_accepted s) cs2"
    by blast
  have "issued (fst (foldl (form_step up jp net) (w, f) (e # events))) = issued w @ (cs1 @ cs2)"
    using st cs1(1) cs2(1) by simp
  moreover have "list_all (\<lambda>c. \<exists>n b s. registration_of (trim n) (trim b) s c \<and> trim n \<noteq> [] \<and> up b \<and>
       spec_accepted s) (cs1 @ cs2)"
    using cs1(2) cs2(2) by simp
  ultimately show ?case using inv2 st by auto
qed

lemma malformed_step:
  assumes "openapi_spec (formData f) = None" and "offers_malformed jp e"
  shows "openapi_spec (formData (snd (form_step up jp net (w, f) e))) = None
     \<and> issued (fst (form_step up jp net (w, f) e)) = issued w"
proof (cases e)
  case (FileSelect content)
  then show ?thesis using assms
    by (cases content)
       (auto simp: handleFileSelect_def offers_malformed_def spec_accepted_def
         split: option.splits sum.splits)
next
  case (TextChange content)
  then show ?thesis using assms
    by (auto simp: handleTextChange_def offers_malformed_def spec_accepted_def Let_def
        split: option.splits sum.splits if_splits)
next
  case Submit
  have "\<not> snd (validateForm up f)"
    using assms(1) by (auto simp: validateForm_def Let_def spec_present_def put_not_Nil)
  then show ?thesis
    using Submit assms(1) handleSubmit_rejected [of up f net w] handleSubmit_formData [of up net w f]
    by simp
qed (use assms in \<open>simp_all add: handleMethodChange_def\<close>)

lemma malformed_run:
  assumes "openapi_spec (formData f) = None" and "list_all (offers_malformed jp) events"
  shows "issued (fst (foldl (form_step up jp net) (w, f) events)) = issued w"
  using assms
proof (induction events arbitrary: w f)
  case Nil
  then show ?case by simp
next
  case (Cons e events)
  obtain w1 f1 where st: "form_step up jp net (w, f) e = (w1, f1)"
    by (cases "form_step up jp net (w, f) e")
  have m: "openapi_spec (formData f1) = None \<and> issued w1 = issued w"
    using malformed_step [of f jp e up net w] Cons.prems st by simp
  then show ?case using Cons.IH [of f1 w1] Cons.prems(2) st by simp
qed

text \<open>
  C3. Whatever the user does with the form, every request it has handed to the transport
  is a registration whose name is non-empty after trimming, whose base URL is the
  trimmed text of a URL that parsed, and whose specification passed validateOpenAPISpec.
  As long as every specification offered, by file or by text, is malformed, no request
  is issued at all.
\<close>

theorem registration_requests_are_validated:
  assumes "issued w0 = []"
  shows "(\<forall>c \<in> set (issued (fst (form_run up jp net w0 events))).
            \<exists>n b s. registration_of (trim n) (trim b) s c \<and> trim n \<noteq> [] \<and> up b \<and> spec_accepted s)
     \<and> (list_all (offers_malformed jp) events \<longrightarrow> issued (fst (form_run up jp net w0 events)) = [])"
proof -
  have i: "form_inv initial_form" by (simp add: form_inv_def initial_form_def)
  have n: "openapi_spec (formData initial_form) = None" by (simp add: initial_form_def)
  show ?thesis
    using form_run_inv [OF i, of up jp net w0 events] malformed_run [OF n, of jp events up net w0] assms
    by (auto simp: form_run_def list_all_iff)
qed

lemma users_spec_accepted: "spec_accepted users_spec"
  by (simp add: users_spec_def spec_accepted_def validateOpenAPISpec_def js_and_def js_bind_def)

lemma trim_users: "trim ''users'' = ''users''"
  by (simp add: trim_def is_space_def)

lemma trim_url: "trim ''https://x.test'' = ''https://x.test''"
  by (simp add: trim_def is_space_def)

lemma sample_run_issued:
  "issued (fst (form_run sample_url_parses sample_json_parse accepting fresh_world
      [NameChange ''users'', BaseUrlChange ''https://x.test'', MethodChange Text,
       TextChange ''{}'', Submit, TextChange ''users.json'', Submit]))
   = [\<lparr>url = ''/register-service'', http_method = ''post'',
       req_data = JObj [(''name'', JStr ''users''), (''base_url'', JStr ''https://x.test''),
         (''openapi_spec'', users_spec)],
       authorization = Some ''Bearer mock-jwt-token'', retry = False\<rparr>]"
  by code_simp

theorem registration_requests_are_validated_witness:
  "(\<exists>n b s. registration_of (trim n) (trim b) s
       \<lparr>url = ''/register-service'', http_method = ''post'',
        req_data = JObj [(''name'', JStr ''users''), (''base_url'', JStr ''https://x.test''),
          (''openapi_spec'', users_spec)],
        authorization = Some ''Bearer mock-jwt-token'', retry = False\<rparr>
       \<and> trim n \<noteq> [] \<and> sample_url_parses b \<and> spec_accepted s)
   \<and> issued (fst (form_run sample_url_parses sample_json_parse accepting fresh_world
        [NameChange ''users'', BaseUrlChange ''https://x.test'', MethodChange Text,
         TextChange ''{}'', Submit])) = []"
proof -
  have w0: "issued fresh_world = []" by (simp add: fresh_world_def)
  have m: "list_all (offers_malformed sample_json_parse)
      [NameChange ''users'', BaseUrlChange ''https://x.test'', MethodChange Text,
       TextChange ''{}'', Submit]"
    by code_simp
  show ?thesis
    using registration_requests_are_validated [OF w0, of sample_url_parses sample_json_parse
        accepting "[NameChange ''users'', BaseUrlChange ''https://x.test'', MethodChange Text,
         TextChange ''{}'', Submit, TextChange ''users.json'', Submit]"]
      registration_requests_are_validated [OF w0, of sample_url_parses sample_json_parse
        accepting "[NameChange ''users'', BaseUrlChange ''https://x.test'', MethodChange Text,
         TextChange ''{}'', Submit]"]
      m
    by (simp add: sample_run_issued)
qed

theorem orchestration_bounded_by_cap_witness:
  "length (filter (\<lambda>p. p = Think) (trace (run_turn default_agent_config insisting failing_invoke)))
     = 15
   \<and> ending (run_turn default_agent_config insisting failing_invoke) = Forced
   \<and> length (scratchpad (run_turn default_agent_config insisting failing_invoke)) = 15"
proof -
  have "length (filter (\<lambda>p. p = Think)
      (trace (run_turn default_agent_config insisting failing_invoke))) \<le> 15"
    using orchestration_bounded_by_cap [of default_agent_config insisting failing_invoke]
    by (simp add: default_agent_config_def)
  moreover have "15 \<le> length (filter (\<lambda>p. p = Think)
      (trace (run_turn default_agent_config insisting failing_invoke)))
    \<and> ending (run_turn default_agent_config insisting failing_invoke) = Forced
    \<and> length (scratchpad (run_turn default_agent_config insisting failing_invoke)) = 15"
    by code_simp
  ultimately show ?thesis by simp
qed

end
